theory Spec2Isabelle
  imports Main
begin

section \<open>The client session of the websocket server (server/ws/src/client.ts)\<close>

text \<open>
  A shallow embedding of the class \<open>ClientSession\<close>. The session's own fields are a
  record that every operation takes and returns. Everything the session calls but does
  not own (the pipeline, the model store behind \<open>pipeline.context.modelDb\<close>, the
  response channel \<open>ctx.sendResponse\<close>, the socket, the send helper \<open>handleSend\<close>,
  the static helpers of \<open>TxProcessor\<close>, \<open>createBroadcastEvent\<close> and \<open>Date.now\<close>) is
  a parameter: a record of functions over an arbitrary world state \<open>'w\<close>. Every call
  that leaves the session is appended to a log, in the order the source makes it, and
  a call that throws (or whose promise rejects) is the value \<open>Inl\<close>, after which the
  operation makes no further call, as an \<open>await\<close> that throws does.
\<close>

subsection \<open>Documents and transactions\<close>

type_synonym ref = string
  \<comment> \<open>\<open>Ref<T>\<close> is a branded string\<close>

type_synonym Timestamp = int
  \<comment> \<open>milliseconds, what \<open>Date.now()\<close> returns\<close>

text \<open>
  \<open>AccountRole\<close> is an enum of the core package; this file uses \<open>AccountRole.Owner\<close>
  only.
\<close>

datatype AccountRole = DocGuest | Guest | User | Maintainer | Owner

datatype FieldValue = StrV string | RoleV AccountRole

text \<open>
  The shape of a document and of a create/update/delete transaction (\<open>TxCUD\<close>), with
  the fields this file reads or writes. A transaction that is no \<open>TxCUD\<close> has a class
  and no \<open>objectClass\<close>: reading that field of it gives \<open>undefined\<close>, here \<open>None\<close>.
\<close>

record Doc =
  doc_id :: ref
  doc_class :: ref
  space :: ref
  modifiedBy :: ref
  doc_fields :: "(string \<times> FieldValue) list"

record TxCUD =
  cud_class :: ref
  cud_modifiedBy :: ref
  objectId :: ref
  cud_objectClass :: ref
  objectSpace :: ref
  attributes :: "(string \<times> FieldValue) list"

datatype Tx = CUD TxCUD | OtherTx ref

fun tx_class :: "Tx \<Rightarrow> ref" where
  "tx_class (CUD t) = cud_class t"
| "tx_class (OtherTx c) = c"

fun objectClass :: "Tx \<Rightarrow> ref option" where
  "objectClass (CUD t) = Some (cud_objectClass t)"
| "objectClass (OtherTx c) = None"

text \<open>Identifiers of the core plugin that the source names.\<close>

definition core_account_System :: ref where
  "core_account_System = ''core:account:System''"

definition core_class_Account :: ref where
  "core_class_Account = ''core:class:Account''"

definition core_space_Model :: ref where
  "core_space_Model = ''core:space:Model''"

definition core_class_TxCreateDoc :: ref where
  "core_class_TxCreateDoc = ''core:class:TxCreateDoc''"

text \<open>
  Modelled from the spec: \<open>TxFactory.createTxCreateDoc\<close> of the core package, which is
  not among the sources. The spec (4.2) has the factory build a creation transaction
  for a document of the given class in the given space, with the given attributes,
  keyed by the given reference; the account the factory was constructed with is the
  author of the transaction.
\<close>

definition createTxCreateDoc ::
  "ref \<Rightarrow> ref \<Rightarrow> ref \<Rightarrow> (string \<times> FieldValue) list \<Rightarrow> ref \<Rightarrow> TxCUD" where
  "createTxCreateDoc account cls spc attrs objId =
     \<lparr>cud_class = core_class_TxCreateDoc, cud_modifiedBy = account, objectId = objId,
      cud_objectClass = cls, objectSpace = spc, attributes = attrs\<rparr>"

text \<open>
  Modelled from the spec: \<open>TxProcessor.createDoc2Doc\<close> of the core package, which is
  not among the sources. The spec (4.2) has it convert the creation transaction into
  its resulting document: the document under the transaction's reference, of its
  class, in its space, with its attributes.
\<close>

definition createDoc2Doc :: "TxCUD \<Rightarrow> Doc" where
  "createDoc2Doc t =
     \<lparr>doc_id = objectId t, doc_class = cud_objectClass t, space = objectSpace t,
      modifiedBy = cud_modifiedBy t, doc_fields = attributes t\<rparr>"

subsection \<open>The session\<close>

record StatisticsElement =
  find_n :: nat
  tx_n :: nat

record Measure =
  measure_id :: string
  message :: string
  time :: nat

record Token =
  email :: string
  extra :: "(string \<rightharpoonup> string) option"

type_synonym SessionRequest = string
type_synonym WorkspaceIdWithUrl = string
type_synonym Branding = string
type_synonym ConnectionSocket = string

text \<open>
  The counters are JavaScript numbers that start at 0 and only ever grow by one; they
  are natural numbers here, which is exact below \<open>2 ^ 53\<close>. The three statistics
  objects are three objects: no two of them alias.
\<close>

record ClientSession =
  createTime :: Timestamp
  requests :: "string \<rightharpoonup> SessionRequest"
  binaryMode :: bool
  useCompression :: bool
  sessionId :: string
  lastRequest :: Timestamp
  total :: StatisticsElement
  current :: StatisticsElement
  mins5 :: StatisticsElement
  measures :: "Measure list"
  token :: Token
  workspaceId :: WorkspaceIdWithUrl
  branding :: "Branding option"

text \<open>
  \<open>SessionDataImpl\<close>, in the order of the constructor's arguments; the last argument,
  the reference to the shared model store, is the store of the world and is left out.
\<close>

record SessionData =
  userEmail :: string
  sd_sessionId :: string
  admin :: bool
  broadcast_txes :: "Tx list"
  broadcast_targets :: "(string \<times> string) list"
  sd_workspace :: WorkspaceIdWithUrl
  sd_branding :: "Branding option"
  isAsyncContext :: bool
  removedMap :: "(ref \<times> Doc) list"
  contextCache :: "(string \<times> string) list"

record MeasureContext =
  contextData :: "SessionData option"

subsection \<open>Calls that leave the session\<close>

datatype error = Thrown string

datatype 'v Response = Text string | AccountDoc "Doc option" | Value 'v

record Payload =
  result :: "Tx list"

datatype 'v Call =
    SendResponse "'v Response"
  | PipelineLoadModel MeasureContext Timestamp "string option"
  | PipelineFindAll MeasureContext ref 'v "'v option"
  | PipelineSearchFulltext MeasureContext 'v 'v
  | PipelineTx MeasureContext "Tx list"
  | PipelineHandleBroadcast MeasureContext
  | SocketSend MeasureContext ConnectionSocket Payload bool bool
  | HandleSend MeasureContext ConnectionSocket Payload nat bool bool

text \<open>
  The collaborators. \<open>perform\<close> answers a call in a world and gives the next world;
  \<open>'v\<close> is the type of the values the session only passes through (queries, options,
  results). \<open>getAccountByEmail\<close> and \<open>findObject\<close> read the model store of the world,
  \<open>now\<close> reads its clock.
\<close>

record ('w, 'v) Collaborators =
  perform :: "'v Call \<Rightarrow> 'w \<Rightarrow> (error + 'v) \<times> 'w"
  getAccountByEmail :: "'w \<Rightarrow> string \<Rightarrow> Doc option"
  findObject :: "'w \<Rightarrow> ref \<Rightarrow> Doc option"
  now :: "'w \<Rightarrow> Timestamp"
  isExtendsCUD :: "ref \<Rightarrow> bool"
  extractTx :: "Tx \<Rightarrow> Tx"
  createBroadcastEvent :: "ref option list \<Rightarrow> Tx"

text \<open>What an operation leaves behind.\<close>

record ('w, 'v) Run =
  outcome :: "error + unit"
  session :: ClientSession
  mcontext :: MeasureContext
  world :: 'w
  calls :: "'v Call list"

definition await ::
  "('w, 'v) Collaborators \<Rightarrow> 'v Call \<Rightarrow> 'w \<times> 'v Call list \<Rightarrow> (error + 'v) \<times> ('w \<times> 'v Call list)" where
  "await E c io = (let (r, w') = perform E c (fst io) in (r, (w', snd io @ [c])))"

definition finish ::
  "error + 'a \<Rightarrow> ClientSession \<Rightarrow> MeasureContext \<Rightarrow> 'w \<times> 'v Call list \<Rightarrow> ('w, 'v) Run" where
  "finish r this ctx io =
     \<lparr>outcome = (case r of Inl e \<Rightarrow> Inl e | Inr _ \<Rightarrow> Inr ()), session = this, mcontext = ctx,
      world = fst io, calls = snd io\<rparr>"

definition failed ::
  "error \<Rightarrow> ClientSession \<Rightarrow> MeasureContext \<Rightarrow> 'w \<times> 'v Call list \<Rightarrow> ('w, 'v) Run" where
  "failed e this ctx io =
     \<lparr>outcome = Inl e, session = this, mcontext = ctx, world = fst io, calls = snd io\<rparr>"

subsection \<open>The operations\<close>

definition getUser :: "ClientSession \<Rightarrow> string" where
  "getUser this = email (token this)"

definition extra_field :: "Token \<Rightarrow> string \<Rightarrow> string option" where
  \<comment> \<open>\<open>token.extra?.f\<close>\<close>
  "extra_field t f = (case extra t of None \<Rightarrow> None | Some ex \<Rightarrow> ex f)"

definition isUpgradeClient :: "ClientSession \<Rightarrow> bool" where
  "isUpgradeClient this = (extra_field (token this) ''model'' = Some ''upgrade'')"

definition getMode :: "ClientSession \<Rightarrow> string" where
  "getMode this = (case extra_field (token this) ''mode'' of None \<Rightarrow> ''normal'' | Some m \<Rightarrow> m)"

definition includeSessionContext :: "ClientSession \<Rightarrow> MeasureContext \<Rightarrow> MeasureContext" where
  "includeSessionContext this ctx =
     ctx\<lparr>contextData := Some
       \<lparr>userEmail = email (token this), sd_sessionId = sessionId this,
        admin = (extra_field (token this) ''admin'' = Some ''true''),
        broadcast_txes = [], broadcast_targets = [],
        sd_workspace = workspaceId this, sd_branding = branding this,
        isAsyncContext = False, removedMap = [], contextCache = []\<rparr>\<rparr>"

definition ping ::
  "('w, 'v) Collaborators \<Rightarrow> ClientSession \<Rightarrow> MeasureContext \<Rightarrow> 'w \<Rightarrow> ('w, 'v) Run" where
  "ping E this ctx w =
     (let this1 = this\<lparr>lastRequest := now E w\<rparr>;
          (sent, io1) = await E (SendResponse (Text ''pong!'')) (w, [])
      in finish sent this1 ctx io1)"

definition loadModel ::
  "('w, 'v) Collaborators \<Rightarrow> ClientSession \<Rightarrow> MeasureContext \<Rightarrow> Timestamp \<Rightarrow> string option \<Rightarrow> 'w
     \<Rightarrow> ('w, 'v) Run" where
  "loadModel E this ctx lastModelTx hash w =
     (let ctx1 = includeSessionContext this ctx;
          (loaded, io1) = await E (PipelineLoadModel ctx1 lastModelTx hash) (w, [])
      in case loaded of
           Inl e \<Rightarrow> failed e this ctx1 io1
         | Inr res \<Rightarrow>
             (let (sent, io2) = await E (SendResponse (Value res)) io1
              in finish sent this ctx1 io2))"

definition getAccount ::
  "('w, 'v) Collaborators \<Rightarrow> ClientSession \<Rightarrow> MeasureContext \<Rightarrow> 'w \<Rightarrow> ('w, 'v) Run" where
  "getAccount E this ctx w =
     (let account = getAccountByEmail E w (email (token this))
      in if account = None \<and> extra_field (token this) ''admin'' = Some ''true'' then
           (let systemAccount = findObject E w (email (token this))
            in if systemAccount = None then
                 (let mail = ''system:'' @ email (token this);
                      createTx = createTxCreateDoc core_account_System core_class_Account
                        core_space_Model [(''role'', RoleV Owner), (''email'', StrV mail)]
                        (email (token this));
                      ctx1 = includeSessionContext this ctx;
                      (done, io1) = await E (PipelineTx ctx1 [CUD createTx]) (w, [])
                  in case done of
                       Inl e \<Rightarrow> failed e this ctx1 io1
                     | Inr _ \<Rightarrow>
                         (let acc = createDoc2Doc createTx;
                              (sent, io2) = await E (SendResponse (AccountDoc (Some acc))) io1
                          in finish sent this ctx1 io2))
               else
                 (let (sent, io1) = await E (SendResponse (AccountDoc systemAccount)) (w, [])
                  in finish sent this ctx io1))
         else
           (let (sent, io1) = await E (SendResponse (AccountDoc account)) (w, [])
            in finish sent this ctx io1))"

text \<open>
  \<open>findAllRaw\<close> returns the pipeline's promise; the model returns what awaiting it
  gives, with the session and the context as the synchronous part left them.
\<close>

definition findAllRaw ::
  "('w, 'v) Collaborators \<Rightarrow> ClientSession \<Rightarrow> MeasureContext \<Rightarrow> ref \<Rightarrow> 'v \<Rightarrow> 'v option
     \<Rightarrow> 'w \<times> 'v Call list \<Rightarrow> (error + 'v) \<times> ClientSession \<times> MeasureContext \<times> ('w \<times> 'v Call list)" where
  "findAllRaw E this ctx cls query options io =
     (let this1 = this\<lparr>lastRequest := now E (fst io)\<rparr>;
          this2 = this1\<lparr>total := (total this1)\<lparr>find_n := find_n (total this1) + 1\<rparr>\<rparr>;
          this3 = this2\<lparr>current := (current this2)\<lparr>find_n := find_n (current this2) + 1\<rparr>\<rparr>;
          ctx1 = includeSessionContext this3 ctx;
          (found, io1) = await E (PipelineFindAll ctx1 cls query options) io
      in (found, this3, ctx1, io1))"

definition findAll ::
  "('w, 'v) Collaborators \<Rightarrow> ClientSession \<Rightarrow> MeasureContext \<Rightarrow> ref \<Rightarrow> 'v \<Rightarrow> 'v option \<Rightarrow> 'w
     \<Rightarrow> ('w, 'v) Run" where
  "findAll E this ctx cls query options w =
     (let (found, this1, ctx1, io1) = findAllRaw E this ctx cls query options (w, [])
      in case found of
           Inl e \<Rightarrow> failed e this1 ctx1 io1
         | Inr res \<Rightarrow>
             (let (sent, io2) = await E (SendResponse (Value res)) io1
              in finish sent this1 ctx1 io2))"

definition searchFulltext ::
  "('w, 'v) Collaborators \<Rightarrow> ClientSession \<Rightarrow> MeasureContext \<Rightarrow> 'v \<Rightarrow> 'v \<Rightarrow> 'w \<Rightarrow> ('w, 'v) Run" where
  "searchFulltext E this ctx query options w =
     (let this1 = this\<lparr>lastRequest := now E w\<rparr>;
          ctx1 = includeSessionContext this1 ctx;
          (found, io1) = await E (PipelineSearchFulltext ctx1 query options) (w, [])
      in case found of
           Inl e \<Rightarrow> failed e this1 ctx1 io1
         | Inr res \<Rightarrow>
             (let (sent, io2) = await E (SendResponse (Value res)) io1
              in finish sent this1 ctx1 io2))"

definition tx ::
  "('w, 'v) Collaborators \<Rightarrow> ClientSession \<Rightarrow> MeasureContext \<Rightarrow> Tx \<Rightarrow> 'w \<Rightarrow> ('w, 'v) Run" where
  "tx E this ctx t w =
     (let this1 = this\<lparr>lastRequest := now E w\<rparr>;
          this2 = this1\<lparr>total := (total this1)\<lparr>tx_n := tx_n (total this1) + 1\<rparr>\<rparr>;
          this3 = this2\<lparr>current := (current this2)\<lparr>tx_n := tx_n (current this2) + 1\<rparr>\<rparr>;
          ctx1 = includeSessionContext this3 ctx;
          (done, io1) = await E (PipelineTx ctx1 [t]) (w, [])
      in case done of
           Inl e \<Rightarrow> failed e this3 ctx1 io1
         | Inr res \<Rightarrow>
             (let (sent, io2) = await E (SendResponse (Value res)) io1
              in case sent of
                   Inl e \<Rightarrow> failed e this3 ctx1 io2
                 | Inr _ \<Rightarrow>
                     (let (flushed, io3) = await E (PipelineHandleBroadcast ctx1) io2
                      in finish flushed this3 ctx1 io3)))"

text \<open>
  In \<open>broadcast\<close> the test is \<open>this.tx.length > 10000\<close>. \<open>this.tx\<close> is the method
  \<open>tx (ctx, tx)\<close> of the session, and the \<open>length\<close> of a function is the number of its
  declared parameters; the parameter \<open>tx\<close>, the batch, is not what is measured.
\<close>

definition this_tx_length :: nat where
  "this_tx_length = 2"

text \<open>
  \<open>Set.add\<close> keeps the first insertion of a value, and \<open>Array.from\<close> lists the values
  in insertion order.
\<close>

definition set_add :: "'a \<Rightarrow> 'a list \<Rightarrow> 'a list" where
  "set_add x xs = (if x \<in> set xs then xs else xs @ [x])"

definition collect_classes ::
  "('w, 'v) Collaborators \<Rightarrow> ref option list \<Rightarrow> Tx \<Rightarrow> ref option list" where
  \<comment> \<open>the body of the loop over the batch\<close>
  "collect_classes E classes dtx =
     (let classes1 = (if isExtendsCUD E (tx_class dtx) then set_add (objectClass dtx) classes
                      else classes);
          etx = extractTx E dtx
      in if isExtendsCUD E (tx_class etx) then set_add (objectClass etx) classes1 else classes1)"

text \<open>
  \<open>socket.send\<close> is called synchronously and what it throws leaves \<open>broadcast\<close>;
  \<open>handleSend\<close> is started and its promise dropped (\<open>void\<close>), so \<open>broadcast\<close> returns
  normally whatever becomes of it.
\<close>

definition broadcast ::
  "('w, 'v) Collaborators \<Rightarrow> ClientSession \<Rightarrow> MeasureContext \<Rightarrow> ConnectionSocket \<Rightarrow> Tx list \<Rightarrow> 'w
     \<Rightarrow> ('w, 'v) Run" where
  "broadcast E this ctx socket txs w =
     (if this_tx_length > 10000 then
        (let classes = foldl (collect_classes E) [] txs;
             bevent = createBroadcastEvent E classes;
             (sent, io1) = await E
               (SocketSend ctx socket \<lparr>result = [bevent]\<rparr> (binaryMode this) (useCompression this))
               (w, [])
         in finish sent this ctx io1)
      else
        (let (started, io1) = await E
               (HandleSend ctx socket \<lparr>result = txs\<rparr> (1024 * 1024) (binaryMode this)
                  (useCompression this))
               (w, [])
         in finish (Inr ()) this ctx io1))"

subsection \<open>Comparing statistics\<close>

definition stats_le :: "StatisticsElement \<Rightarrow> StatisticsElement \<Rightarrow> bool" where
  "stats_le a b = (find_n a \<le> find_n b \<and> tx_n a \<le> tx_n b)"

definition counters_le :: "ClientSession \<Rightarrow> ClientSession \<Rightarrow> bool" where
  "counters_le s s' =
     (stats_le (total s) (total s') \<and> stats_le (current s) (current s') \<and>
      stats_le (mins5 s) (mins5 s'))"

subsection \<open>A test double of the collaborators\<close>

text \<open>
  A small world to run the operations in: the model store is a list of documents, the
  pipeline applies the creation transactions it is given to the store and answers
  \<open>''ok''\<close>, every other call answers \<open>''ok''\<close> and changes nothing, and the clock
  shows the time the world holds.
\<close>

record TestWorld =
  docs :: "Doc list"
  clock :: Timestamp

fun apply_tx :: "Doc list \<Rightarrow> Tx \<Rightarrow> Doc list" where
  "apply_tx ds (CUD t) =
     (if cud_class t = core_class_TxCreateDoc then ds @ [createDoc2Doc t] else ds)"
| "apply_tx ds (OtherTx c) = ds"

fun test_perform :: "string Call \<Rightarrow> TestWorld \<Rightarrow> (error + string) \<times> TestWorld" where
  "test_perform (PipelineTx ctx txs) w = (Inr ''ok'', w\<lparr>docs := foldl apply_tx (docs w) txs\<rparr>)"
| "test_perform c w = (Inr ''ok'', w)"

definition test_getAccountByEmail :: "TestWorld \<Rightarrow> string \<Rightarrow> Doc option" where
  "test_getAccountByEmail w e =
     find (\<lambda>d. doc_class d = core_class_Account \<and> map_of (doc_fields d) ''email'' = Some (StrV e))
       (rev (docs w))"

definition test_findObject :: "TestWorld \<Rightarrow> ref \<Rightarrow> Doc option" where
  "test_findObject w r = find (\<lambda>d. doc_id d = r) (docs w)"

definition test_extractTx :: "Tx \<Rightarrow> Tx" where
  "test_extractTx t = t"

definition test_isExtendsCUD :: "ref \<Rightarrow> bool" where
  "test_isExtendsCUD c = (c = core_class_TxCreateDoc)"

definition test_createBroadcastEvent :: "ref option list \<Rightarrow> Tx" where
  "test_createBroadcastEvent cs = OtherTx ''core:class:TxWorkspaceEvent''"

definition test_double :: "(TestWorld, string) Collaborators" where
  "test_double =
     \<lparr>perform = test_perform, getAccountByEmail = test_getAccountByEmail,
      findObject = test_findObject, now = clock, isExtendsCUD = test_isExtendsCUD,
      extractTx = test_extractTx, createBroadcastEvent = test_createBroadcastEvent\<rparr>"

definition new_session :: "Token \<Rightarrow> Timestamp \<Rightarrow> ClientSession" where
  \<comment> \<open>the field initialisers and the constructor, at the given time\<close>
  "new_session tok t =
     \<lparr>createTime = t, requests = Map.empty, binaryMode = False, useCompression = True,
      sessionId = [], lastRequest = t,
      total = \<lparr>find_n = 0, tx_n = 0\<rparr>, current = \<lparr>find_n = 0, tx_n = 0\<rparr>,
      mins5 = \<lparr>find_n = 0, tx_n = 0\<rparr>, measures = [], token = tok,
      workspaceId = ''ws1'', branding = None\<rparr>"

definition admin_token :: Token where
  "admin_token = \<lparr>email = ''root@example.com'', extra = Some [''admin'' \<mapsto> ''true'']\<rparr>"

definition user_token :: Token where
  "user_token = \<lparr>email = ''ann@example.com'', extra = None\<rparr>"

definition empty_ctx :: MeasureContext where
  "empty_ctx = \<lparr>contextData = None\<rparr>"

definition empty_world :: TestWorld where
  "empty_world = \<lparr>docs = [], clock = 1000\<rparr>"

definition early_world :: TestWorld where
  \<comment> \<open>a world whose clock shows less than 1000: the clock was set back\<close>
  "early_world = \<lparr>docs = [], clock = 500\<rparr>"

definition create_in :: "ref \<Rightarrow> Tx" where
  \<comment> \<open>a creation transaction for a document of the given class\<close>
  "create_in cls = CUD (createTxCreateDoc ''u1'' cls ''space1'' [] ''doc1'')"

subsection \<open>Names for what the operations build\<close>

definition system_account_tx :: "ClientSession \<Rightarrow> TxCUD" where
  \<comment> \<open>the creation transaction that \<open>getAccount\<close> builds for an admin caller\<close>
  "system_account_tx this =
     createTxCreateDoc core_account_System core_class_Account core_space_Model
       [(''role'', RoleV Owner), (''email'', StrV (''system:'' @ email (token this)))]
       (email (token this))"

definition counted_tx :: "ClientSession \<Rightarrow> Timestamp \<Rightarrow> ClientSession" where
  \<comment> \<open>the session after the first three statements of \<open>tx\<close>, the clock showing \<open>t\<close>\<close>
  "counted_tx this t =
     this\<lparr>lastRequest := t, total := (total this)\<lparr>tx_n := tx_n (total this) + 1\<rparr>,
          current := (current this)\<lparr>tx_n := tx_n (current this) + 1\<rparr>\<rparr>"

definition counted_find :: "ClientSession \<Rightarrow> Timestamp \<Rightarrow> ClientSession" where
  \<comment> \<open>the session after the first three statements of \<open>findAllRaw\<close>, the clock showing \<open>t\<close>\<close>
  "counted_find this t =
     this\<lparr>lastRequest := t, total := (total this)\<lparr>find_n := find_n (total this) + 1\<rparr>,
          current := (current this)\<lparr>find_n := find_n (current this) + 1\<rparr>\<rparr>"

section \<open>What each operation does to the session and to the log\<close>

lemma await_simp:
  "await E c (w, cs) = (fst (perform E c w), (snd (perform E c w), cs @ [c]))"
  by (simp add: await_def split: prod.splits)

lemma ping_session: "session (ping E this ctx w) = this\<lparr>lastRequest := now E w\<rparr>"
  by (simp add: ping_def await_simp finish_def Let_def)

lemma loadModel_session: "session (loadModel E this ctx l h w) = this"
  by (simp add: loadModel_def await_simp finish_def failed_def Let_def split: sum.splits)

lemma getAccount_session: "session (getAccount E this ctx w) = this"
  by (simp add: getAccount_def await_simp finish_def failed_def Let_def split: sum.splits)

lemma findAll_session: "session (findAll E this ctx cls q opts w) = counted_find this (now E w)"
  by (simp add: findAll_def findAllRaw_def await_simp finish_def failed_def Let_def
      counted_find_def split: sum.splits)

lemma searchFulltext_session:
  "session (searchFulltext E this ctx q opts w) = this\<lparr>lastRequest := now E w\<rparr>"
  by (simp add: searchFulltext_def await_simp finish_def failed_def Let_def split: sum.splits)

lemma tx_session: "session (tx E this ctx t w) = counted_tx this (now E w)"
  by (simp add: tx_def await_simp finish_def failed_def Let_def counted_tx_def split: sum.splits)

lemma tx_mcontext:
  "mcontext (tx E this ctx t w) = includeSessionContext (counted_tx this (now E w)) ctx"
  by (simp add: tx_def await_simp finish_def failed_def Let_def counted_tx_def split: sum.splits)

lemma broadcast_session: "session (broadcast E this ctx socket txs w) = this"
  by (simp add: broadcast_def this_tx_length_def await_simp finish_def)

lemma broadcast_calls:
  "calls (broadcast E this ctx socket txs w) =
     [HandleSend ctx socket \<lparr>result = txs\<rparr> (1024 * 1024) (binaryMode this) (useCompression this)]"
  by (simp add: broadcast_def this_tx_length_def await_simp finish_def)

text \<open>
  The log of \<open>tx\<close>: the pipeline call, then the reply if the pipeline call returned, then
  the flush if the reply was sent.
\<close>

lemma tx_calls:
  "calls (tx E this ctx t w) =
     (let c = includeSessionContext (counted_tx this (now E w)) ctx;
          p = perform E (PipelineTx c [t]) w
      in case fst p of
           Inl e \<Rightarrow> [PipelineTx c [t]]
         | Inr res \<Rightarrow>
            (case fst (perform E (SendResponse (Value res)) (snd p)) of
               Inl e \<Rightarrow> [PipelineTx c [t], SendResponse (Value res)]
             | Inr u \<Rightarrow> [PipelineTx c [t], SendResponse (Value res), PipelineHandleBroadcast c]))"
  by (simp add: tx_def await_simp finish_def failed_def Let_def counted_tx_def split: sum.splits)

lemma getAccount_create_calls:
  assumes "getAccountByEmail E w (email (token this)) = None"
    and "extra_field (token this) ''admin'' = Some ''true''"
    and "findObject E w (email (token this)) = None"
  shows "calls (getAccount E this ctx w) =
     PipelineTx (includeSessionContext this ctx) [CUD (system_account_tx this)] #
       (case fst (perform E (PipelineTx (includeSessionContext this ctx)
                     [CUD (system_account_tx this)]) w) of
          Inl e \<Rightarrow> []
        | Inr r \<Rightarrow> [SendResponse (AccountDoc (Some (createDoc2Doc (system_account_tx this))))])"
  using assms
  by (simp add: getAccount_def await_simp finish_def failed_def system_account_tx_def Let_def
      split: sum.splits)

lemma getAccount_existing_system_account:
  assumes "getAccountByEmail E w (email (token this)) = None"
    and "extra_field (token this) ''admin'' = Some ''true''"
    and "findObject E w (email (token this)) = Some d"
  shows "calls (getAccount E this ctx w) = [SendResponse (AccountDoc (Some d))]"
  using assms by (simp add: getAccount_def await_simp finish_def Let_def)

section \<open>The broadcast decision\<close>

text \<open>
  C1. A batch of more than 10,000 transactions is to be replaced by one compacted
  broadcast event carrying the classes the batch touches, and nothing else is to be
  sent. The source tests \<open>this.tx.length\<close>, the number of parameters of the method
  \<open>tx\<close>, which is 2, so the compacting branch is never taken: for a batch of 10,001
  creations in one class the only call is \<open>handleSend\<close> with the whole batch, and no
  broadcast event is built.
\<close>

theorem broadcast_large_batch_not_compacted:
  "calls (broadcast test_double (new_session user_token 0) empty_ctx ''socket1''
         (replicate 10001 (create_in ''class:A'')) empty_world) =
     [HandleSend empty_ctx ''socket1'' \<lparr>result = replicate 10001 (create_in ''class:A'')\<rparr>
        (1024 * 1024) False True]"
  by (simp add: broadcast_def this_tx_length_def await_simp finish_def new_session_def)

text \<open>
  C2. A batch of at most 10,000 transactions is handed to the send helper as it is:
  the one call \<open>broadcast\<close> makes is \<open>handleSend\<close> with the payload \<open>{ result: tx }\<close>,
  the limit of 1 MiB and the session's two transport flags; no broadcast event is
  built.
\<close>

theorem broadcast_small_batch_verbatim:
  assumes "length txs \<le> 10000"
  shows "calls (broadcast E this ctx socket txs w) =
     [HandleSend ctx socket \<lparr>result = txs\<rparr> (1024 * 1024) (binaryMode this) (useCompression this)]"
  by (rule broadcast_calls)

theorem broadcast_small_batch_verbatim_witness:
  "length [create_in ''class:A'', create_in ''class:B'', create_in ''class:A''] \<le> 10000 \<and>
   calls (broadcast test_double (new_session user_token 0) empty_ctx ''socket1''
      [create_in ''class:A'', create_in ''class:B'', create_in ''class:A''] empty_world) =
     [HandleSend empty_ctx ''socket1''
        \<lparr>result = [create_in ''class:A'', create_in ''class:B'', create_in ''class:A'']\<rparr>
        (1024 * 1024) False True]"
  using broadcast_small_batch_verbatim
    [of "[create_in ''class:A'', create_in ''class:B'', create_in ''class:A'']"
        test_double "new_session user_token 0" empty_ctx "''socket1''" empty_world]
  by (simp add: new_session_def)

text \<open>
  C10. \<open>broadcast\<close> writes no field of the session: after it, the session is the one
  before, and so are its three statistics objects, its last-activity timestamp and its
  map of live requests.
\<close>

theorem broadcast_frame:
  "session (broadcast E this ctx socket txs w) = this \<and>
   total (session (broadcast E this ctx socket txs w)) = total this \<and>
   current (session (broadcast E this ctx socket txs w)) = current this \<and>
   mins5 (session (broadcast E this ctx socket txs w)) = mins5 this \<and>
   lastRequest (session (broadcast E this ctx socket txs w)) = lastRequest this \<and>
   requests (session (broadcast E this ctx socket txs w)) = requests this"
  by (simp add: broadcast_session)

section \<open>The account resolver\<close>

text \<open>
  C3. When the model store has no account for the caller's email and the caller is
  not an admin, \<open>getAccount\<close> answers with the absent account and calls nothing else:
  the log is the one \<open>sendResponse (undefined)\<close>, the world is what that reply left,
  and the session is unchanged. No transaction reaches the pipeline.
\<close>

theorem getAccount_absent_non_admin:
  assumes "getAccountByEmail E w (email (token this)) = None"
    and "extra_field (token this) ''admin'' \<noteq> Some ''true''"
  shows "calls (getAccount E this ctx w) = [SendResponse (AccountDoc None)] \<and>
         world (getAccount E this ctx w) = snd (perform E (SendResponse (AccountDoc None)) w) \<and>
         session (getAccount E this ctx w) = this"
  using assms by (simp add: getAccount_def await_simp finish_def)

theorem getAccount_absent_non_admin_witness:
  "getAccountByEmail test_double empty_world (email (token (new_session user_token 0))) = None \<and>
   extra_field (token (new_session user_token 0)) ''admin'' \<noteq> Some ''true'' \<and>
   calls (getAccount test_double (new_session user_token 0) empty_ctx empty_world) =
     [SendResponse (AccountDoc None)] \<and>
   world (getAccount test_double (new_session user_token 0) empty_ctx empty_world) = empty_world"
  using getAccount_absent_non_admin [of test_double empty_world "new_session user_token 0" empty_ctx]
  by (simp add: test_double_def test_getAccountByEmail_def empty_world_def new_session_def
      user_token_def extra_field_def)

text \<open>
  C4. When the caller is an admin, the store has no account for the caller's email and
  no document under the raw email as a reference, \<open>getAccount\<close> submits one
  transaction list to the pipeline, holding the one creation transaction, and, the
  pipeline call having returned, answers with the document of that transaction: its
  reference is the raw email, its class is the account class, its email field is
  \<open>system:\<close> followed by the caller's email, and its role is Owner. There is no other
  pipeline call in the log.
\<close>

theorem getAccount_admin_creates_system_account:
  assumes "getAccountByEmail E w (email (token this)) = None"
    and "extra_field (token this) ''admin'' = Some ''true''"
    and "findObject E w (email (token this)) = None"
  shows "calls (getAccount E this ctx w) =
     PipelineTx (includeSessionContext this ctx) [CUD (system_account_tx this)] #
       (case fst (perform E (PipelineTx (includeSessionContext this ctx)
                     [CUD (system_account_tx this)]) w) of
          Inl e \<Rightarrow> []
        | Inr r \<Rightarrow> [SendResponse (AccountDoc (Some (createDoc2Doc (system_account_tx this))))]) \<and>
     cud_class (system_account_tx this) = core_class_TxCreateDoc \<and>
     doc_class (createDoc2Doc (system_account_tx this)) = core_class_Account \<and>
     doc_id (createDoc2Doc (system_account_tx this)) = email (token this) \<and>
     map_of (doc_fields (createDoc2Doc (system_account_tx this))) ''email'' =
       Some (StrV (''system:'' @ email (token this))) \<and>
     map_of (doc_fields (createDoc2Doc (system_account_tx this))) ''role'' = Some (RoleV Owner)"
  using getAccount_create_calls [OF assms]
  by (simp add: system_account_tx_def createTxCreateDoc_def createDoc2Doc_def)

theorem getAccount_admin_creates_system_account_witness:
  "getAccountByEmail test_double empty_world (email (token (new_session admin_token 0))) = None \<and>
   extra_field (token (new_session admin_token 0)) ''admin'' = Some ''true'' \<and>
   findObject test_double empty_world (email (token (new_session admin_token 0))) = None \<and>
   calls (getAccount test_double (new_session admin_token 0) empty_ctx empty_world) =
     [PipelineTx (includeSessionContext (new_session admin_token 0) empty_ctx)
        [CUD (system_account_tx (new_session admin_token 0))],
      SendResponse (AccountDoc (Some
        \<lparr>doc_id = ''root@example.com'', doc_class = core_class_Account, space = core_space_Model,
         modifiedBy = core_account_System,
         doc_fields = [(''role'', RoleV Owner), (''email'', StrV ''system:root@example.com'')]\<rparr>))]"
  using getAccount_admin_creates_system_account
    [of test_double empty_world "new_session admin_token 0" empty_ctx]
  by (simp add: test_double_def test_getAccountByEmail_def test_findObject_def empty_world_def
      new_session_def admin_token_def extra_field_def system_account_tx_def
      createTxCreateDoc_def createDoc2Doc_def)

text \<open>
  C5. \<open>getAccount\<close> repeated by the same admin caller: the first call found neither an
  account nor a system account, returned normally and answered with the document
  \<open>acc\<close>; the store it left holds \<open>acc\<close> under the raw email and still has no account
  for that email. Then the second call, on the session, context and world the first
  one left, answers with \<open>acc\<close> and makes no other call: no second creation
  transaction reaches the pipeline.
\<close>

theorem getAccount_idempotent:
  assumes "extra_field (token this) ''admin'' = Some ''true''"
    and "getAccountByEmail E w (email (token this)) = None"
    and "findObject E w (email (token this)) = None"
    and "outcome (getAccount E this ctx w) = Inr ()"
    and "last (calls (getAccount E this ctx w)) = SendResponse (AccountDoc (Some acc))"
    and "findObject E (world (getAccount E this ctx w)) (email (token this)) = Some acc"
    and "getAccountByEmail E (world (getAccount E this ctx w)) (email (token this)) = None"
  shows "calls (getAccount E (session (getAccount E this ctx w))
           (mcontext (getAccount E this ctx w)) (world (getAccount E this ctx w))) =
         [SendResponse (AccountDoc (Some acc))]"
  using assms(1,6,7)
    getAccount_existing_system_account [of E "world (getAccount E this ctx w)" this acc]
  by (simp add: getAccount_session)

theorem getAccount_idempotent_witness:
  "extra_field (token (new_session admin_token 0)) ''admin'' = Some ''true'' \<and>
   getAccountByEmail test_double empty_world (email (token (new_session admin_token 0))) = None \<and>
   findObject test_double empty_world (email (token (new_session admin_token 0))) = None \<and>
   outcome (getAccount test_double (new_session admin_token 0) empty_ctx empty_world) = Inr () \<and>
   last (calls (getAccount test_double (new_session admin_token 0) empty_ctx empty_world)) =
     SendResponse (AccountDoc (Some (createDoc2Doc (system_account_tx (new_session admin_token 0))))) \<and>
   calls (getAccount test_double
       (session (getAccount test_double (new_session admin_token 0) empty_ctx empty_world))
       (mcontext (getAccount test_double (new_session admin_token 0) empty_ctx empty_world))
       (world (getAccount test_double (new_session admin_token 0) empty_ctx empty_world))) =
     [SendResponse (AccountDoc (Some (createDoc2Doc (system_account_tx (new_session admin_token 0)))))]"
proof -
  let ?s = "new_session admin_token 0"
  let ?R = "getAccount test_double ?s empty_ctx empty_world"
  let ?acc = "createDoc2Doc (system_account_tx ?s)"
  have adm: "extra_field (token ?s) ''admin'' = Some ''true''"
    by (simp add: new_session_def admin_token_def extra_field_def)
  have g0: "getAccountByEmail test_double empty_world (email (token ?s)) = None"
    by (simp add: test_double_def test_getAccountByEmail_def empty_world_def)
  have f0: "findObject test_double empty_world (email (token ?s)) = None"
    by (simp add: test_double_def test_findObject_def empty_world_def)
  have run: "?R = \<lparr>outcome = Inr (), session = ?s,
       mcontext = includeSessionContext ?s empty_ctx,
       world = \<lparr>docs = [?acc], clock = 1000\<rparr>,
       calls = [PipelineTx (includeSessionContext ?s empty_ctx) [CUD (system_account_tx ?s)],
                SendResponse (AccountDoc (Some ?acc))]\<rparr>"
    using adm g0 f0
    by (simp add: getAccount_def await_simp finish_def Let_def system_account_tx_def
        test_double_def empty_world_def createTxCreateDoc_def)
  have out: "outcome ?R = Inr ()" by (simp add: run)
  have lst: "last (calls ?R) = SendResponse (AccountDoc (Some ?acc))" by (simp add: run)
  have f1: "findObject test_double (world ?R) (email (token ?s)) = Some ?acc"
    unfolding run
    by (simp add: test_double_def test_findObject_def system_account_tx_def
        createTxCreateDoc_def createDoc2Doc_def)
  have g1: "getAccountByEmail test_double (world ?R) (email (token ?s)) = None"
    unfolding run
    by (simp add: test_double_def test_getAccountByEmail_def system_account_tx_def
        createTxCreateDoc_def createDoc2Doc_def new_session_def admin_token_def)
  show ?thesis
    using getAccount_idempotent [OF adm g0 f0 out lst f1 g1] adm g0 f0 out lst by simp
qed

section \<open>The transaction gateway\<close>

text \<open>
  C6. In the log of a call to \<open>tx\<close>, wherever the pipeline's broadcast flush
  (\<open>handleBroadcast\<close>) stands, a \<open>sendResponse\<close> stands before it, and what it sends
  is the result the pipeline returned for the transaction.
\<close>

theorem tx_reply_before_flush:
  assumes "j < length (calls (tx E this ctx t w))"
    and "calls (tx E this ctx t w) ! j = PipelineHandleBroadcast c"
  shows "\<exists>i res. i < j \<and> calls (tx E this ctx t w) ! i = SendResponse (Value res) \<and>
           fst (perform E (PipelineTx (mcontext (tx E this ctx t w)) [t]) w) = Inr res"
proof -
  let ?c = "includeSessionContext (counted_tx this (now E w)) ctx"
  let ?p = "perform E (PipelineTx ?c [t]) w"
  show ?thesis
  proof (cases "fst ?p")
    case (Inl e)
    then have "calls (tx E this ctx t w) = [PipelineTx ?c [t]]"
      by (simp add: tx_calls Let_def)
    with assms show ?thesis by simp
  next
    case (Inr res)
    show ?thesis
    proof (cases "fst (perform E (SendResponse (Value res)) (snd ?p))")
      case (Inl e)
      with Inr have cs: "calls (tx E this ctx t w) = [PipelineTx ?c [t], SendResponse (Value res)]"
        by (simp add: tx_calls Let_def)
      from assms show ?thesis unfolding cs by (cases j) (auto simp: less_Suc_eq)
    next
      case Inr2: (Inr u)
      with Inr have cs: "calls (tx E this ctx t w) =
          [PipelineTx ?c [t], SendResponse (Value res), PipelineHandleBroadcast ?c]"
        by (simp add: tx_calls Let_def)
      from assms(1) have "j = 0 \<or> j = 1 \<or> j = 2" unfolding cs by auto
      with assms(2) have j2: "j = 2" unfolding cs by auto
      have "(1::nat) < 2 \<and> calls (tx E this ctx t w) ! 1 = SendResponse (Value res) \<and>
            fst (perform E (PipelineTx (mcontext (tx E this ctx t w)) [t]) w) = Inr res"
        using Inr by (simp add: cs tx_mcontext)
      with j2 show ?thesis by blast
    qed
  qed
qed

theorem tx_reply_before_flush_witness:
  "2 < length (calls (tx test_double (new_session admin_token 0) empty_ctx
          (create_in ''class:A'') empty_world)) \<and>
   calls (tx test_double (new_session admin_token 0) empty_ctx
          (create_in ''class:A'') empty_world) ! 2 =
     PipelineHandleBroadcast
       (mcontext (tx test_double (new_session admin_token 0) empty_ctx
          (create_in ''class:A'') empty_world)) \<and>
   (\<exists>i res. i < 2 \<and>
      calls (tx test_double (new_session admin_token 0) empty_ctx
          (create_in ''class:A'') empty_world) ! i = SendResponse (Value res) \<and>
      fst (perform test_double
        (PipelineTx (mcontext (tx test_double (new_session admin_token 0) empty_ctx
            (create_in ''class:A'') empty_world)) [create_in ''class:A'']) empty_world) = Inr res)"
proof -
  let ?R = "tx test_double (new_session admin_token 0) empty_ctx (create_in ''class:A'') empty_world"
  have cs: "calls ?R = [PipelineTx (mcontext ?R) [create_in ''class:A''],
      SendResponse (Value ''ok''), PipelineHandleBroadcast (mcontext ?R)]"
    by (simp add: tx_calls tx_mcontext test_double_def Let_def)
  have l: "2 < length (calls ?R)" by (simp add: cs)
  have b: "calls ?R ! 2 = PipelineHandleBroadcast (mcontext ?R)" by (simp add: cs)
  from tx_reply_before_flush [OF l b] l b show ?thesis by blast
qed

section \<open>Request statistics\<close>

text \<open>
  C7, as the code has it. Every call to \<open>findAll\<close> adds one to the find counter of the
  cumulative total and one to the find counter of the current period, and sets the
  last-activity timestamp to what the clock (\<open>Date.now\<close>) shows at the call; every
  call to \<open>tx\<close> does the same with the two transaction counters. The new timestamp is
  the clock's reading, whatever the timestamp was before.
\<close>

theorem findAll_tx_statistics:
  "find_n (total (session (findAll E this ctx cls q opts w))) = find_n (total this) + 1 \<and>
   find_n (current (session (findAll E this ctx cls q opts w))) = find_n (current this) + 1 \<and>
   lastRequest (session (findAll E this ctx cls q opts w)) = now E w \<and>
   tx_n (total (session (tx E this ctx t w))) = tx_n (total this) + 1 \<and>
   tx_n (current (session (tx E this ctx t w))) = tx_n (current this) + 1 \<and>
   lastRequest (session (tx E this ctx t w)) = now E w"
  by (simp add: findAll_session tx_session counted_find_def counted_tx_def)

text \<open>
  C7 as stated asks for a new timestamp that is at least the old one. The code does not
  compare the two: a session whose last request was at 1000, asked to \<open>findAll\<close> when
  the clock shows 500, ends with the timestamp 500.
\<close>

theorem findAll_timestamp_can_decrease:
  "lastRequest (session (findAll test_double (new_session user_token 1000) empty_ctx
       ''class:A'' ''query'' None early_world)) <
   lastRequest (new_session user_token 1000)"
  by (simp add: findAll_session counted_find_def test_double_def early_world_def new_session_def)

text \<open>
  C8. \<open>searchFulltext\<close> changes none of the three statistics objects, so no find counter
  moves, and sets the last-activity timestamp to what the clock shows at the call.
\<close>

theorem searchFulltext_no_find_statistics:
  "total (session (searchFulltext E this ctx q opts w)) = total this \<and>
   current (session (searchFulltext E this ctx q opts w)) = current this \<and>
   mins5 (session (searchFulltext E this ctx q opts w)) = mins5 this \<and>
   lastRequest (session (searchFulltext E this ctx q opts w)) = now E w"
  by (simp add: searchFulltext_session)

text \<open>
  C9. Under each of the seven operations of the session (ping, loadModel, getAccount,
  findAll, searchFulltext, tx, broadcast) every counter of the total, the current and
  the five-minute statistics is, afterwards, at least what it was before.
\<close>

theorem counters_never_decrease:
  "counters_le this (session (ping E this ctx w)) \<and>
   counters_le this (session (loadModel E this ctx lastModelTx hash w)) \<and>
   counters_le this (session (getAccount E this ctx w)) \<and>
   counters_le this (session (findAll E this ctx cls q opts w)) \<and>
   counters_le this (session (searchFulltext E this ctx sq sopts w)) \<and>
   counters_le this (session (tx E this ctx t w)) \<and>
   counters_le this (session (broadcast E this ctx socket txs w))"
  by (simp add: ping_session loadModel_session getAccount_session findAll_session
      searchFulltext_session tx_session broadcast_session counted_find_def counted_tx_def
      counters_le_def stats_le_def)

end
